theory Spec2Isabelle
  imports Main "HOL-Library.Word"
begin

section \<open>The bidirectional stream of stream.go\<close>

text \<open>
  stream.go composes a send half and a receive half into one stream. The two halves
  (sendStream, receiveStream), the frames of package wire and the types of package protocol
  live in other files of the repository. The composition is embedded here as it is
  written; what it calls in the halves is a parameter of the model, so every theorem
  holds for whatever the halves do.
\<close>

subsection \<open>Types of package protocol and frames of package wire\<close>

text \<open>
  Modelled from the spec: package protocol is not among the sources. The stream
  identifier is an integer handle, the application error code a numeric code, a byte
  count an offset into the stream, the version a tag. They are Go's unsigned integers;
  stream.go does no arithmetic on them, so their widths decide nothing below. The zero
  value of a Go integer type is 0.
\<close>

type_synonym StreamID = "64 word"
type_synonym ByteCount = "64 word"
type_synonym ApplicationErrorCode = "16 word"
type_synonym VersionNumber = "32 word"

definition errorCodeStopping :: ApplicationErrorCode where
  "errorCodeStopping = 0"

definition errorCodeStoppingGQUIC :: ApplicationErrorCode where
  "errorCodeStoppingGQUIC = 7"

text \<open>
  Modelled from the spec: package wire is not among the sources. A RESET frame carries
  an application error code and a final offset, a STOP-SENDING frame an application
  error code; stream.go reads and writes the fields StreamID and ErrorCode.
\<close>

record RstStreamFrame =
  StreamID :: StreamID
  ErrorCode :: ApplicationErrorCode
  ByteOffset :: ByteCount

record StopSendingFrame =
  StreamID :: StreamID
  ErrorCode :: ApplicationErrorCode

subsection \<open>The error types\<close>

text \<open>\<^verbatim>\<open>type deadlineError struct{}\<close> with its three methods, and the value errDeadline.\<close>

datatype deadlineError = deadlineError

definition deadlineError_Error :: "deadlineError \<Rightarrow> string" where
  "deadlineError_Error e = ''deadline exceeded''"

definition deadlineError_Temporary :: "deadlineError \<Rightarrow> bool" where
  "deadlineError_Temporary e = True"

definition deadlineError_Timeout :: "deadlineError \<Rightarrow> bool" where
  "deadlineError_Timeout e = True"

definition errDeadline :: deadlineError where
  "errDeadline = deadlineError"

text \<open>
  \<^verbatim>\<open>type streamCanceledError struct { error; errorCode protocol.ApplicationErrorCode }\<close>:
  the embedded error is the wrapped descriptive error, of any type \<open>'e\<close>.
\<close>

record 'e streamCanceledError =
  error :: 'e
  errorCode :: ApplicationErrorCode

definition streamCanceledError_Canceled :: "'e streamCanceledError \<Rightarrow> bool" where
  "streamCanceledError_Canceled e = True"

definition streamCanceledError_ErrorCode :: "'e streamCanceledError \<Rightarrow> ApplicationErrorCode" where
  "streamCanceledError_ErrorCode e = errorCode e"

subsection \<open>What the composition calls in the two halves\<close>

text \<open>
  sendStream and receiveStream are not among the sources, so their methods are
  parameters: one record of functions for each half. \<open>'s\<close> and \<open>'r\<close> are the states of
  the send and the receive half. \<open>'w\<close> is everything the halves share and reach through
  what they were constructed with: the flow controller, and what the callbacks onData and
  queueControlFrame act on, the queue of control frames waiting for transmission
  included. A method that can change anything takes the half's state and \<open>'w\<close> and
  returns both; a half never gets hold of the other half's state. A Go error is
  \<open>'e option\<close>, \<open>None\<close> for nil. \<open>'t\<close> is time.Time. The last field of each record stands
  for the exported methods that stream.go neither defines nor calls and that callers
  reach by promotion (Write, CancelWrite, PopStreamFrame, ... of the send half; Read,
  CancelRead, HandleStreamFrame, ... of the receive half), named by \<open>'a\<close> and \<open>'b\<close>.
\<close>

record ('s, 'w, 'e, 't, 'a) sendStream_methods =
  sendStream_StreamID :: "'s \<Rightarrow> StreamID"
  sendStream_Close :: "'s \<Rightarrow> 'w \<Rightarrow> 'e option \<times> 's \<times> 'w"
  sendStream_getWriteOffset :: "'s \<Rightarrow> ByteCount"
  sendStream_SetWriteDeadline :: "'t \<Rightarrow> 's \<Rightarrow> 'w \<Rightarrow> 'e option \<times> 's \<times> 'w"
  sendStream_CloseForShutdown :: "'e \<Rightarrow> 's \<Rightarrow> 'w \<Rightarrow> 's \<times> 'w"
  sendStream_HandleStopSendingFrame :: "StopSendingFrame \<Rightarrow> 's \<Rightarrow> 'w \<Rightarrow> 's \<times> 'w"
  sendStream_Finished :: "'s \<Rightarrow> bool"
  sendStream_promoted :: "'a \<Rightarrow> 's \<Rightarrow> 'w \<Rightarrow> 's \<times> 'w"

record ('r, 'w, 'e, 't, 'b) receiveStream_methods =
  receiveStream_onClose :: "ByteCount \<Rightarrow> 'r \<Rightarrow> 'w \<Rightarrow> 'r \<times> 'w"
  receiveStream_SetReadDeadline :: "'t \<Rightarrow> 'r \<Rightarrow> 'w \<Rightarrow> 'e option \<times> 'r \<times> 'w"
  receiveStream_CloseForShutdown :: "'e \<Rightarrow> 'r \<Rightarrow> 'w \<Rightarrow> 'r \<times> 'w"
  receiveStream_HandleRstStreamFrame :: "RstStreamFrame \<Rightarrow> 'r \<Rightarrow> 'w \<Rightarrow> 'e option \<times> 'r \<times> 'w"
  receiveStream_Finished :: "'r \<Rightarrow> bool"
  receiveStream_promoted :: "'b \<Rightarrow> 'r \<Rightarrow> 'w \<Rightarrow> 'r \<times> 'w"

subsection \<open>The stream\<close>

text \<open>
  \<^verbatim>\<open>type stream struct { receiveStream; sendStream; version protocol.VersionNumber }\<close>
\<close>

record ('r, 's) stream =
  receiveStream :: 'r
  sendStream :: 's
  version :: VersionNumber

text \<open>
  newStream. The two constructors are parameters; the composite literal names the
  fields sendStream and receiveStream and no other, so the field version has Go's zero
  value.
\<close>

definition newStream ::
  "(StreamID \<Rightarrow> 'cb \<Rightarrow> 'q \<Rightarrow> 'fc \<Rightarrow> VersionNumber \<Rightarrow> 's) \<Rightarrow>
   (StreamID \<Rightarrow> 'cb \<Rightarrow> 'q \<Rightarrow> 'fc \<Rightarrow> 'r) \<Rightarrow>
   StreamID \<Rightarrow> 'cb \<Rightarrow> 'q \<Rightarrow> 'fc \<Rightarrow> VersionNumber \<Rightarrow> ('r, 's) stream" where
  "newStream newSendStream newReceiveStream streamID onData queueControlFrame flowController
     version' =
     \<lparr>receiveStream = newReceiveStream streamID onData queueControlFrame flowController,
      sendStream = newSendStream streamID onData queueControlFrame flowController version',
      version = 0\<rparr>"

text \<open>StreamID: \<^verbatim>\<open>return s.sendStream.StreamID()\<close>\<close>

definition stream_StreamID ::
  "('s, 'w, 'e, 't, 'a) sendStream_methods \<Rightarrow> ('r, 's) stream \<Rightarrow> StreamID" where
  "stream_StreamID S s = sendStream_StreamID S (sendStream s)"

text \<open>
  Close: the send half is closed first; on an error the method returns it, otherwise
  the receive half's onClose gets the write offset the send half has after its Close.
\<close>

definition stream_Close ::
  "('s, 'w, 'e, 't, 'a) sendStream_methods \<Rightarrow> ('r, 'w, 'e, 't, 'b) receiveStream_methods \<Rightarrow>
   ('r, 's) stream \<times> 'w \<Rightarrow> 'e option \<times> ('r, 's) stream \<times> 'w" where
  "stream_Close S R = (\<lambda>(s, w).
     case sendStream_Close S (sendStream s) w of
       (Some err, ss, w1) \<Rightarrow> (Some err, s\<lparr>sendStream := ss\<rparr>, w1)
     | (None, ss, w1) \<Rightarrow>
         (case receiveStream_onClose R (sendStream_getWriteOffset S ss) (receiveStream s) w1 of
            (rs, w2) \<Rightarrow> (None, s\<lparr>sendStream := ss, receiveStream := rs\<rparr>, w2)))"

text \<open>
  SetDeadline: SetReadDeadline, then SetWriteDeadline, both results dropped, nil
  returned.
\<close>

definition stream_SetDeadline ::
  "('s, 'w, 'e, 't, 'a) sendStream_methods \<Rightarrow> ('r, 'w, 'e, 't, 'b) receiveStream_methods \<Rightarrow>
   't \<Rightarrow> ('r, 's) stream \<times> 'w \<Rightarrow> 'e option \<times> ('r, 's) stream \<times> 'w" where
  "stream_SetDeadline S R t = (\<lambda>(s, w).
     case receiveStream_SetReadDeadline R t (receiveStream s) w of
       (_, rs, w1) \<Rightarrow>
         (case sendStream_SetWriteDeadline S t (sendStream s) w1 of
            (_, ss, w2) \<Rightarrow> (None, s\<lparr>receiveStream := rs, sendStream := ss\<rparr>, w2)))"

text \<open>CloseForShutdown: the send half first, then the receive half, the same err.\<close>

definition stream_CloseForShutdown ::
  "('s, 'w, 'e, 't, 'a) sendStream_methods \<Rightarrow> ('r, 'w, 'e, 't, 'b) receiveStream_methods \<Rightarrow>
   'e \<Rightarrow> ('r, 's) stream \<times> 'w \<Rightarrow> ('r, 's) stream \<times> 'w" where
  "stream_CloseForShutdown S R err = (\<lambda>(s, w).
     case sendStream_CloseForShutdown S err (sendStream s) w of
       (ss, w1) \<Rightarrow>
         (case receiveStream_CloseForShutdown R err (receiveStream s) w1 of
            (rs, w2) \<Rightarrow> (s\<lparr>sendStream := ss, receiveStream := rs\<rparr>, w2)))"

text \<open>
  HandleRstStreamFrame. The method UsesIETFFrameFormat of protocol.VersionNumber is not
  among the sources: it is the first parameter. HandleStopSendingFrame is the send
  half's method, reached by promotion; the frame's StreamID is the stream's own
  StreamID().
\<close>

definition stream_HandleRstStreamFrame ::
  "(VersionNumber \<Rightarrow> bool) \<Rightarrow>
   ('s, 'w, 'e, 't, 'a) sendStream_methods \<Rightarrow> ('r, 'w, 'e, 't, 'b) receiveStream_methods \<Rightarrow>
   RstStreamFrame \<Rightarrow> ('r, 's) stream \<times> 'w \<Rightarrow> 'e option \<times> ('r, 's) stream \<times> 'w" where
  "stream_HandleRstStreamFrame UsesIETFFrameFormat S R frame = (\<lambda>(s, w).
     case receiveStream_HandleRstStreamFrame R frame (receiveStream s) w of
       (Some err, rs, w1) \<Rightarrow> (Some err, s\<lparr>receiveStream := rs\<rparr>, w1)
     | (None, rs, w1) \<Rightarrow>
         (let s1 = s\<lparr>receiveStream := rs\<rparr> in
          if \<not> UsesIETFFrameFormat (version s1) then
            (case sendStream_HandleStopSendingFrame S
                    \<lparr>StopSendingFrame.StreamID = stream_StreamID S s1,
                     ErrorCode = RstStreamFrame.ErrorCode frame\<rparr>
                    (sendStream s1) w1 of
               (ss, w2) \<Rightarrow> (None, s1\<lparr>sendStream := ss\<rparr>, w2))
          else (None, s1, w1)))"

text \<open>Finished: \<^verbatim>\<open>return s.sendStream.Finished() && s.receiveStream.Finished()\<close>\<close>

definition stream_Finished ::
  "('s, 'w, 'e, 't, 'a) sendStream_methods \<Rightarrow> ('r, 'w, 'e, 't, 'b) receiveStream_methods \<Rightarrow>
   ('r, 's) stream \<Rightarrow> bool" where
  "stream_Finished S R s = (sendStream_Finished S (sendStream s) \<and> receiveStream_Finished R (receiveStream s))"

subsection \<open>The lifetime of a stream\<close>

text \<open>
  The callers of a stream (the session and the application) call its methods one after
  the other: those that stream.go defines, and those promoted from the halves. A
  lifetime is a list of such calls; a step performs one call and keeps the stream and
  the shared state (what the call returns is the caller's).
\<close>

datatype ('e, 't, 'a, 'b) call =
    CallStreamID
  | CallClose
  | CallSetDeadline 't
  | CallCloseForShutdown 'e
  | CallHandleRstStreamFrame RstStreamFrame
  | CallFinished
  | CallHandleStopSendingFrame StopSendingFrame
  | CallSetWriteDeadline 't
  | CallSetReadDeadline 't
  | CallSend 'a
  | CallReceive 'b

fun step ::
  "(VersionNumber \<Rightarrow> bool) \<Rightarrow>
   ('s, 'w, 'e, 't, 'a) sendStream_methods \<Rightarrow> ('r, 'w, 'e, 't, 'b) receiveStream_methods \<Rightarrow>
   ('e, 't, 'a, 'b) call \<Rightarrow> ('r, 's) stream \<times> 'w \<Rightarrow> ('r, 's) stream \<times> 'w" where
  "step U S R CallStreamID (s, w) = (s, w)"
| "step U S R CallClose (s, w) = snd (stream_Close S R (s, w))"
| "step U S R (CallSetDeadline t) (s, w) = snd (stream_SetDeadline S R t (s, w))"
| "step U S R (CallCloseForShutdown err) (s, w) = stream_CloseForShutdown S R err (s, w)"
| "step U S R (CallHandleRstStreamFrame frame) (s, w) =
     snd (stream_HandleRstStreamFrame U S R frame (s, w))"
| "step U S R CallFinished (s, w) = (s, w)"
| "step U S R (CallHandleStopSendingFrame frame) (s, w) =
     (case sendStream_HandleStopSendingFrame S frame (sendStream s) w of
        (ss, w1) \<Rightarrow> (s\<lparr>sendStream := ss\<rparr>, w1))"
| "step U S R (CallSetWriteDeadline t) (s, w) =
     (case sendStream_SetWriteDeadline S t (sendStream s) w of
        (_, ss, w1) \<Rightarrow> (s\<lparr>sendStream := ss\<rparr>, w1))"
| "step U S R (CallSetReadDeadline t) (s, w) =
     (case receiveStream_SetReadDeadline R t (receiveStream s) w of
        (_, rs, w1) \<Rightarrow> (s\<lparr>receiveStream := rs\<rparr>, w1))"
| "step U S R (CallSend a) (s, w) =
     (case sendStream_promoted S a (sendStream s) w of
        (ss, w1) \<Rightarrow> (s\<lparr>sendStream := ss\<rparr>, w1))"
| "step U S R (CallReceive b) (s, w) =
     (case receiveStream_promoted R b (receiveStream s) w of
        (rs, w1) \<Rightarrow> (s\<lparr>receiveStream := rs\<rparr>, w1))"

fun lifetime ::
  "(VersionNumber \<Rightarrow> bool) \<Rightarrow>
   ('s, 'w, 'e, 't, 'a) sendStream_methods \<Rightarrow> ('r, 'w, 'e, 't, 'b) receiveStream_methods \<Rightarrow>
   ('e, 't, 'a, 'b) call list \<Rightarrow> ('r, 's) stream \<times> 'w \<Rightarrow> ('r, 's) stream \<times> 'w" where
  "lifetime U S R [] sw = sw"
| "lifetime U S R (c # cs) sw = lifetime U S R cs (step U S R c sw)"

subsection \<open>Properties that a half keeps\<close>

text \<open>
  A property \<open>P\<close> of the send half's state is kept by the send half when no method of
  the half leads from a state with \<open>P\<close> to one without, whatever the arguments and the
  shared state; the same for the receive half.
\<close>

definition sendStream_keeps ::
  "('s, 'w, 'e, 't, 'a) sendStream_methods \<Rightarrow> ('s \<Rightarrow> bool) \<Rightarrow> bool" where
  "sendStream_keeps S P =
     (\<forall>s w. P s \<longrightarrow>
        P (fst (snd (sendStream_Close S s w)))
        \<and> (\<forall>t. P (fst (snd (sendStream_SetWriteDeadline S t s w))))
        \<and> (\<forall>err. P (fst (sendStream_CloseForShutdown S err s w)))
        \<and> (\<forall>frame. P (fst (sendStream_HandleStopSendingFrame S frame s w)))
        \<and> (\<forall>a. P (fst (sendStream_promoted S a s w))))"

definition receiveStream_keeps ::
  "('r, 'w, 'e, 't, 'b) receiveStream_methods \<Rightarrow> ('r \<Rightarrow> bool) \<Rightarrow> bool" where
  "receiveStream_keeps R P =
     (\<forall>r w. P r \<longrightarrow>
        (\<forall>offset. P (fst (receiveStream_onClose R offset r w)))
        \<and> (\<forall>t. P (fst (snd (receiveStream_SetReadDeadline R t r w))))
        \<and> (\<forall>err. P (fst (receiveStream_CloseForShutdown R err r w)))
        \<and> (\<forall>frame. P (fst (snd (receiveStream_HandleRstStreamFrame R frame r w))))
        \<and> (\<forall>b. P (fst (receiveStream_promoted R b r w))))"

text \<open>
  Each half's finished predicate is monotone when the half keeps it: once true, no
  method of the half makes it false.
\<close>

definition sendStream_Finished_monotone ::
  "('s, 'w, 'e, 't, 'a) sendStream_methods \<Rightarrow> bool" where
  "sendStream_Finished_monotone S = sendStream_keeps S (sendStream_Finished S)"

definition receiveStream_Finished_monotone ::
  "('r, 'w, 'e, 't, 'b) receiveStream_methods \<Rightarrow> bool" where
  "receiveStream_Finished_monotone R = receiveStream_keeps R (receiveStream_Finished R)"

text \<open>
  Modelled from the spec: sendStream is not among the sources. The stream identifier is
  established once at construction and never mutated: the send half constructed for an
  identifier answers it, and no method of the half changes the answer.
\<close>

definition sendStream_StreamID_immutable ::
  "(StreamID \<Rightarrow> 'cb \<Rightarrow> 'q \<Rightarrow> 'fc \<Rightarrow> VersionNumber \<Rightarrow> 's) \<Rightarrow>
   ('s, 'w, 'e, 't, 'a) sendStream_methods \<Rightarrow> bool" where
  "sendStream_StreamID_immutable newSendStream S =
     ((\<forall>streamID onData queueControlFrame flowController version'.
         sendStream_StreamID S
           (newSendStream streamID onData queueControlFrame flowController version') = streamID)
      \<and> (\<forall>streamID. sendStream_keeps S (\<lambda>s. sendStream_StreamID S s = streamID)))"

subsection \<open>Two recording halves, to run the composition\<close>

text \<open>
  To run the composition on concrete inputs, two small halves stand in for the ones of
  the repository. They record every call they get, in the order of arrival, in the
  shared state, next to the control frames handed to queueControlFrame. Their answers
  are scripted by their state: the send half's Close returns \<open>probe_closeResult\<close>, the
  receive half accepts a RESET when \<open>probe_acceptsRst\<close>. The recording receive half
  queues a RST_STREAM with the final offset in onClose when CancelRead was called,
  which is what the comment in Close says of gQUIC.
\<close>

datatype event =
    EvSendClose
  | EvSendSetWriteDeadline nat
  | EvSendCloseForShutdown string
  | EvSendHandleStopSendingFrame StopSendingFrame
  | EvSendPromoted
  | EvReceiveOnClose ByteCount
  | EvReceiveSetReadDeadline nat
  | EvReceiveCloseForShutdown string
  | EvReceiveHandleRstStreamFrame RstStreamFrame
  | EvReceivePromoted

record probeShared =
  calls :: "event list"
  queued :: "RstStreamFrame list"

record sendProbe =
  probe_StreamID :: StreamID
  probe_writeOffset :: ByteCount
  probe_closeResult :: "string option"
  probe_sendFinished :: bool

record receiveProbe =
  probe_receiveID :: StreamID
  probe_acceptsRst :: bool
  probe_canceledRead :: bool
  probe_receiveFinished :: bool

definition called :: "event \<Rightarrow> probeShared \<Rightarrow> probeShared" where
  "called e w = w\<lparr>calls := calls w @ [e]\<rparr>"

definition probe_newSendStream ::
  "StreamID \<Rightarrow> unit \<Rightarrow> unit \<Rightarrow> unit \<Rightarrow> VersionNumber \<Rightarrow> sendProbe" where
  "probe_newSendStream streamID onData queueControlFrame flowController version' =
     \<lparr>probe_StreamID = streamID, probe_writeOffset = 0, probe_closeResult = None,
      probe_sendFinished = False\<rparr>"

definition probe_newReceiveStream ::
  "StreamID \<Rightarrow> unit \<Rightarrow> unit \<Rightarrow> unit \<Rightarrow> receiveProbe" where
  "probe_newReceiveStream streamID onData queueControlFrame flowController =
     \<lparr>probe_receiveID = streamID, probe_acceptsRst = True, probe_canceledRead = False,
      probe_receiveFinished = False\<rparr>"

definition probe_sendStream ::
  "(sendProbe, probeShared, string, nat, unit) sendStream_methods" where
  "probe_sendStream =
     \<lparr>sendStream_StreamID = probe_StreamID,
      sendStream_Close = (\<lambda>s w. (probe_closeResult s, s, called EvSendClose w)),
      sendStream_getWriteOffset = probe_writeOffset,
      sendStream_SetWriteDeadline = (\<lambda>t s w. (None, s, called (EvSendSetWriteDeadline t) w)),
      sendStream_CloseForShutdown =
        (\<lambda>err s w. (s\<lparr>probe_sendFinished := True\<rparr>, called (EvSendCloseForShutdown err) w)),
      sendStream_HandleStopSendingFrame =
        (\<lambda>frame s w. (s\<lparr>probe_sendFinished := True\<rparr>,
                       called (EvSendHandleStopSendingFrame frame) w)),
      sendStream_Finished = probe_sendFinished,
      sendStream_promoted = (\<lambda>a s w. (s, called EvSendPromoted w))\<rparr>"

definition probe_receiveStream ::
  "(receiveProbe, probeShared, string, nat, unit) receiveStream_methods" where
  "probe_receiveStream =
     \<lparr>receiveStream_onClose =
        (\<lambda>offset r w.
           (r, (if probe_canceledRead r
                then w\<lparr>queued := queued w @
                       [\<lparr>RstStreamFrame.StreamID = probe_receiveID r, ErrorCode = 0,
                         ByteOffset = offset\<rparr>]\<rparr>
                else w)\<lparr>calls := calls w @ [EvReceiveOnClose offset]\<rparr>)),
      receiveStream_SetReadDeadline =
        (\<lambda>t r w. (None, r, called (EvReceiveSetReadDeadline t) w)),
      receiveStream_CloseForShutdown =
        (\<lambda>err r w. (r\<lparr>probe_receiveFinished := True\<rparr>,
                     called (EvReceiveCloseForShutdown err) w)),
      receiveStream_HandleRstStreamFrame =
        (\<lambda>frame r w.
           if probe_acceptsRst r
           then (None, r\<lparr>probe_receiveFinished := True\<rparr>,
                 called (EvReceiveHandleRstStreamFrame frame) w)
           else (Some ''rejected'', r, called (EvReceiveHandleRstStreamFrame frame) w)),
      receiveStream_Finished = probe_receiveFinished,
      receiveStream_promoted = (\<lambda>b r w. (r, called EvReceivePromoted w))\<rparr>"

section \<open>Theorems\<close>

subsection \<open>What a step does to each half\<close>

lemma step_keeps_sendStream:
  assumes "sendStream_keeps S P" and "P (sendStream s)"
  shows "P (sendStream (fst (step U S R c (s, w))))"
proof -
  note k = assms(1) [unfolded sendStream_keeps_def, rule_format, OF assms(2)]
  have 1: "\<And>w'. P (fst (snd (sendStream_Close S (sendStream s) w')))"
    and 2: "\<And>t w'. P (fst (snd (sendStream_SetWriteDeadline S t (sendStream s) w')))"
    and 3: "\<And>err w'. P (fst (sendStream_CloseForShutdown S err (sendStream s) w'))"
    and 4: "\<And>f w'. P (fst (sendStream_HandleStopSendingFrame S f (sendStream s) w'))"
    and 5: "\<And>a w'. P (fst (sendStream_promoted S a (sendStream s) w'))"
    using k by blast+
  show ?thesis
  proof (cases c)
    case CallClose
    show ?thesis
      using 1 [of w] CallClose
      by (cases "sendStream_Close S (sendStream s) w")
        (auto simp add: stream_Close_def split: prod.splits option.splits)
  next
    case (CallSetDeadline t)
    obtain e rs w1 where r: "receiveStream_SetReadDeadline R t (receiveStream s) w = (e, rs, w1)"
      by (cases "receiveStream_SetReadDeadline R t (receiveStream s) w")
    show ?thesis
      using 2 [of t w1] CallSetDeadline r
      by (cases "sendStream_SetWriteDeadline S t (sendStream s) w1")
        (auto simp add: stream_SetDeadline_def)
  next
    case (CallCloseForShutdown err)
    show ?thesis
      using 3 [of err w] CallCloseForShutdown
      by (cases "sendStream_CloseForShutdown S err (sendStream s) w")
        (auto simp add: stream_CloseForShutdown_def split: prod.splits)
  next
    case (CallHandleRstStreamFrame frame)
    obtain e rs w1 where
      r: "receiveStream_HandleRstStreamFrame R frame (receiveStream s) w = (e, rs, w1)"
      by (cases "receiveStream_HandleRstStreamFrame R frame (receiveStream s) w")
    let ?f = "\<lparr>StopSendingFrame.StreamID = sendStream_StreamID S (sendStream s),
               ErrorCode = RstStreamFrame.ErrorCode frame\<rparr>"
    show ?thesis
      using 4 [of ?f w1] assms(2) CallHandleRstStreamFrame r
      by (cases "sendStream_HandleStopSendingFrame S ?f (sendStream s) w1"; cases e)
        (auto simp add: stream_HandleRstStreamFrame_def stream_StreamID_def Let_def)
  next
    case (CallHandleStopSendingFrame frame)
    show ?thesis
      using 4 [of frame w] CallHandleStopSendingFrame by (auto split: prod.splits)
  next
    case (CallSetWriteDeadline t)
    show ?thesis
      using 2 [of t w] CallSetWriteDeadline by (auto split: prod.splits)
  next
    case (CallSend a)
    show ?thesis
      using 5 [of a w] CallSend by (auto split: prod.splits)
  qed (use assms(2) in \<open>auto split: prod.splits\<close>)
qed

lemma step_keeps_receiveStream:
  assumes "receiveStream_keeps R P" and "P (receiveStream s)"
  shows "P (receiveStream (fst (step U S R c (s, w))))"
proof -
  note k = assms(1) [unfolded receiveStream_keeps_def, rule_format, OF assms(2)]
  have 1: "\<And>offset w'. P (fst (receiveStream_onClose R offset (receiveStream s) w'))"
    and 2: "\<And>t w'. P (fst (snd (receiveStream_SetReadDeadline R t (receiveStream s) w')))"
    and 3: "\<And>err w'. P (fst (receiveStream_CloseForShutdown R err (receiveStream s) w'))"
    and 4: "\<And>f w'. P (fst (snd (receiveStream_HandleRstStreamFrame R f (receiveStream s) w')))"
    and 5: "\<And>b w'. P (fst (receiveStream_promoted R b (receiveStream s) w'))"
    using k by blast+
  show ?thesis
  proof (cases c)
    case CallClose
    obtain e ss w1 where r: "sendStream_Close S (sendStream s) w = (e, ss, w1)"
      by (cases "sendStream_Close S (sendStream s) w")
    show ?thesis
      using 1 [of "sendStream_getWriteOffset S ss" w1] assms(2) CallClose r
      by (cases "receiveStream_onClose R (sendStream_getWriteOffset S ss) (receiveStream s) w1";
          cases e)
        (auto simp add: stream_Close_def)
  next
    case (CallSetDeadline t)
    show ?thesis
      using 2 [of t w] CallSetDeadline
      by (cases "receiveStream_SetReadDeadline R t (receiveStream s) w")
        (auto simp add: stream_SetDeadline_def split: prod.splits)
  next
    case (CallCloseForShutdown err)
    obtain ss w1 where r: "sendStream_CloseForShutdown S err (sendStream s) w = (ss, w1)"
      by (cases "sendStream_CloseForShutdown S err (sendStream s) w")
    show ?thesis
      using 3 [of err w1] CallCloseForShutdown r
      by (cases "receiveStream_CloseForShutdown R err (receiveStream s) w1")
        (auto simp add: stream_CloseForShutdown_def)
  next
    case (CallHandleRstStreamFrame frame)
    show ?thesis
      using 4 [of frame w] CallHandleRstStreamFrame
      by (cases "receiveStream_HandleRstStreamFrame R frame (receiveStream s) w")
        (auto simp add: stream_HandleRstStreamFrame_def Let_def
          split: prod.splits option.splits)
  next
    case (CallSetReadDeadline t)
    show ?thesis
      using 2 [of t w] CallSetReadDeadline by (auto split: prod.splits)
  next
    case (CallReceive b)
    show ?thesis
      using 5 [of b w] CallReceive by (auto split: prod.splits)
  qed (use assms(2) in \<open>auto split: prod.splits\<close>)
qed

lemma lifetime_keeps_sendStream:
  "sendStream_keeps S P \<Longrightarrow> P (sendStream s) \<Longrightarrow>
   P (sendStream (fst (lifetime U S R cs (s, w))))"
proof (induction cs arbitrary: s w)
  case Nil
  then show ?case by simp
next
  case (Cons c cs)
  obtain s' w' where sw: "step U S R c (s, w) = (s', w')"
    by (cases "step U S R c (s, w)")
  have "P (sendStream s')"
    using step_keeps_sendStream [OF Cons.prems, of U R c w] sw by simp
  then show ?case
    using Cons.IH [OF Cons.prems(1), of s' w'] sw by simp
qed

lemma lifetime_keeps_receiveStream:
  "receiveStream_keeps R P \<Longrightarrow> P (receiveStream s) \<Longrightarrow>
   P (receiveStream (fst (lifetime U S R cs (s, w))))"
proof (induction cs arbitrary: s w)
  case Nil
  then show ?case by simp
next
  case (Cons c cs)
  obtain s' w' where sw: "step U S R c (s, w) = (s', w')"
    by (cases "step U S R c (s, w)")
  have "P (receiveStream s')"
    using step_keeps_receiveStream [OF Cons.prems, of U S c w] sw by simp
  then show ?case
    using Cons.IH [OF Cons.prems(1), of s' w'] sw by simp
qed

subsection \<open>Close\<close>

text \<open>
  C2. Close closes the send half first. If that returns an error, Close returns this
  error; the receive half is as it was and the shared state is what the send half's
  Close left, so onClose was not invoked. If it returns nil, the receive half's onClose
  is invoked next, on the shared state the send half's Close left and with the write
  offset the send half has after its Close, and Close returns nil.
\<close>

theorem stream_Close_send_then_onClose:
  "(sendStream_Close S (sendStream s) w = (Some err, ss, w1) \<longrightarrow>
      stream_Close S R (s, w) = (Some err, s\<lparr>sendStream := ss\<rparr>, w1)
      \<and> receiveStream (fst (snd (stream_Close S R (s, w)))) = receiveStream s)
   \<and> (sendStream_Close S (sendStream s) w = (None, ss, w1) \<longrightarrow>
      receiveStream_onClose R (sendStream_getWriteOffset S ss) (receiveStream s) w1 = (rs, w2) \<longrightarrow>
      stream_Close S R (s, w) = (None, s\<lparr>sendStream := ss, receiveStream := rs\<rparr>, w2))"
  by (simp add: stream_Close_def)

theorem stream_Close_send_then_onClose_witness:
  "stream_Close probe_sendStream probe_receiveStream
     (\<lparr>receiveStream =
          \<lparr>probe_receiveID = 4, probe_acceptsRst = True, probe_canceledRead = True,
           probe_receiveFinished = False\<rparr>,
       sendStream =
          \<lparr>probe_StreamID = 4, probe_writeOffset = 10, probe_closeResult = Some ''closed'',
           probe_sendFinished = False\<rparr>,
       version = 0\<rparr>,
      \<lparr>calls = [], queued = []\<rparr>)
   = (Some ''closed'',
      \<lparr>receiveStream =
          \<lparr>probe_receiveID = 4, probe_acceptsRst = True, probe_canceledRead = True,
           probe_receiveFinished = False\<rparr>,
       sendStream =
          \<lparr>probe_StreamID = 4, probe_writeOffset = 10, probe_closeResult = Some ''closed'',
           probe_sendFinished = False\<rparr>,
       version = 0\<rparr>,
      \<lparr>calls = [EvSendClose], queued = []\<rparr>)
   \<and> stream_Close probe_sendStream probe_receiveStream
     (\<lparr>receiveStream =
          \<lparr>probe_receiveID = 4, probe_acceptsRst = True, probe_canceledRead = True,
           probe_receiveFinished = False\<rparr>,
       sendStream =
          \<lparr>probe_StreamID = 4, probe_writeOffset = 10, probe_closeResult = None,
           probe_sendFinished = False\<rparr>,
       version = 0\<rparr>,
      \<lparr>calls = [], queued = []\<rparr>)
   = (None,
      \<lparr>receiveStream =
          \<lparr>probe_receiveID = 4, probe_acceptsRst = True, probe_canceledRead = True,
           probe_receiveFinished = False\<rparr>,
       sendStream =
          \<lparr>probe_StreamID = 4, probe_writeOffset = 10, probe_closeResult = None,
           probe_sendFinished = False\<rparr>,
       version = 0\<rparr>,
      \<lparr>calls = [EvSendClose, EvReceiveOnClose 10],
       queued = [\<lparr>RstStreamFrame.StreamID = 4, ErrorCode = 0, ByteOffset = 10\<rparr>]\<rparr>)"
proof -
  let ?r = "\<lparr>probe_receiveID = 4, probe_acceptsRst = True, probe_canceledRead = True,
            probe_receiveFinished = False\<rparr>"
  let ?bad = "\<lparr>probe_StreamID = 4, probe_writeOffset = 10, probe_closeResult = Some ''closed'',
              probe_sendFinished = False\<rparr>"
  let ?good = "\<lparr>probe_StreamID = 4, probe_writeOffset = 10, probe_closeResult = None,
               probe_sendFinished = False\<rparr>"
  let ?w = "\<lparr>calls = [], queued = []\<rparr>"
  let ?w1 = "\<lparr>calls = [EvSendClose], queued = []\<rparr>"
  have bad: "sendStream_Close probe_sendStream
               (sendStream \<lparr>receiveStream = ?r, sendStream = ?bad, version = 0\<rparr>) ?w
             = (Some ''closed'', ?bad, ?w1)"
    by (simp add: probe_sendStream_def called_def)
  have good: "sendStream_Close probe_sendStream
                (sendStream \<lparr>receiveStream = ?r, sendStream = ?good, version = 0\<rparr>) ?w
              = (None, ?good, ?w1)"
    by (simp add: probe_sendStream_def called_def)
  have onClose: "receiveStream_onClose probe_receiveStream
                   (sendStream_getWriteOffset probe_sendStream ?good)
                   (receiveStream \<lparr>receiveStream = ?r, sendStream = ?good, version = 0\<rparr>) ?w1
                 = (?r, \<lparr>calls = [EvSendClose, EvReceiveOnClose 10],
                         queued = [\<lparr>RstStreamFrame.StreamID = 4, ErrorCode = 0,
                                    ByteOffset = 10\<rparr>]\<rparr>)"
    by (simp add: probe_sendStream_def probe_receiveStream_def)
  show ?thesis
    using stream_Close_send_then_onClose [where R = probe_receiveStream,
            THEN conjunct1, rule_format, OF bad, THEN conjunct1]
          stream_Close_send_then_onClose [THEN conjunct2, rule_format, OF good onClose]
    by simp
qed

text \<open>
  stream.go keeps no record of an earlier Close. A second Close after a successful one
  goes to the send half's Close again and returns what that returns; what the send half
  answers when it is closed twice is its own matter.
\<close>

lemma stream_Close_again:
  "stream_Close S R (s, w) = (None, s1, w1) \<Longrightarrow>
   fst (stream_Close S R (s1, w1)) = fst (sendStream_Close S (sendStream s1) w1)"
  by (simp add: stream_Close_def split: prod.splits option.splits)

subsection \<open>HandleRstStreamFrame\<close>

text \<open>
  C3. If the receive half's HandleRstStreamFrame returns an error, the stream's
  HandleRstStreamFrame returns this error and does nothing more: the send half is as it
  was, the shared state is what the receive half left, and no stop-sending frame went to
  the send half, whatever the version and whatever UsesIETFFrameFormat says of it.
\<close>

theorem stream_HandleRstStreamFrame_rejected:
  "receiveStream_HandleRstStreamFrame R frame (receiveStream s) w = (Some err, rs, w1) \<Longrightarrow>
   stream_HandleRstStreamFrame UsesIETFFrameFormat S R frame (s, w)
     = (Some err, s\<lparr>receiveStream := rs\<rparr>, w1)
   \<and> sendStream (fst (snd (stream_HandleRstStreamFrame UsesIETFFrameFormat S R frame (s, w))))
     = sendStream s"
  by (simp add: stream_HandleRstStreamFrame_def)

theorem stream_HandleRstStreamFrame_rejected_witness:
  "stream_HandleRstStreamFrame (\<lambda>v. False) probe_sendStream probe_receiveStream
     \<lparr>RstStreamFrame.StreamID = 4, ErrorCode = 3, ByteOffset = 10\<rparr>
     (\<lparr>receiveStream =
          \<lparr>probe_receiveID = 4, probe_acceptsRst = False, probe_canceledRead = False,
           probe_receiveFinished = True\<rparr>,
       sendStream =
          \<lparr>probe_StreamID = 4, probe_writeOffset = 10, probe_closeResult = None,
           probe_sendFinished = False\<rparr>,
       version = 0\<rparr>,
      \<lparr>calls = [], queued = []\<rparr>)
   = (Some ''rejected'',
      \<lparr>receiveStream =
          \<lparr>probe_receiveID = 4, probe_acceptsRst = False, probe_canceledRead = False,
           probe_receiveFinished = True\<rparr>,
       sendStream =
          \<lparr>probe_StreamID = 4, probe_writeOffset = 10, probe_closeResult = None,
           probe_sendFinished = False\<rparr>,
       version = 0\<rparr>,
      \<lparr>calls = [EvReceiveHandleRstStreamFrame
                  \<lparr>RstStreamFrame.StreamID = 4, ErrorCode = 3, ByteOffset = 10\<rparr>],
       queued = []\<rparr>)"
proof -
  let ?frame = "\<lparr>RstStreamFrame.StreamID = 4, ErrorCode = 3, ByteOffset = 10\<rparr>"
  let ?r = "\<lparr>probe_receiveID = 4, probe_acceptsRst = False, probe_canceledRead = False,
            probe_receiveFinished = True\<rparr>"
  let ?s = "\<lparr>probe_StreamID = 4, probe_writeOffset = 10, probe_closeResult = None,
            probe_sendFinished = False\<rparr>"
  have rejected:
    "receiveStream_HandleRstStreamFrame probe_receiveStream ?frame
       (receiveStream \<lparr>receiveStream = ?r, sendStream = ?s, version = 0\<rparr>)
       \<lparr>calls = [], queued = []\<rparr>
     = (Some ''rejected'', ?r,
        \<lparr>calls = [EvReceiveHandleRstStreamFrame ?frame], queued = []\<rparr>)"
    by (simp add: probe_receiveStream_def called_def)
  show ?thesis
    using stream_HandleRstStreamFrame_rejected
            [OF rejected, where UsesIETFFrameFormat = "\<lambda>v. False" and S = probe_sendStream,
             THEN conjunct1]
    by simp
qed

subsection \<open>CloseForShutdown\<close>

text \<open>
  C4. CloseForShutdown calls CloseForShutdown of the send half and then of the receive
  half, each with the err it was given, and does nothing else: the stream afterwards
  holds the two halves as these calls left them, and the shared state is what the two
  calls made of it. The composition adds no frame of its own: whatever is observed of
  the shared state (\<open>frames\<close>, the control frames queued for the peer, say) and is left
  alone by the CloseForShutdown of each half is the same before and after.
\<close>

theorem stream_CloseForShutdown_both_halves:
  "sendStream_CloseForShutdown S err (sendStream s) w = (ss, w1) \<Longrightarrow>
   receiveStream_CloseForShutdown R err (receiveStream s) w1 = (rs, w2) \<Longrightarrow>
   stream_CloseForShutdown S R err (s, w) = (s\<lparr>sendStream := ss, receiveStream := rs\<rparr>, w2)
   \<and> ((\<forall>ss' w'. frames (snd (sendStream_CloseForShutdown S err ss' w')) = frames w')
        \<and> (\<forall>rs' w'. frames (snd (receiveStream_CloseForShutdown R err rs' w')) = frames w')
      \<longrightarrow> frames (snd (stream_CloseForShutdown S R err (s, w))) = frames w)"
proof (intro conjI impI)
  assume a: "sendStream_CloseForShutdown S err (sendStream s) w = (ss, w1)"
    and b: "receiveStream_CloseForShutdown R err (receiveStream s) w1 = (rs, w2)"
  show r: "stream_CloseForShutdown S R err (s, w)
           = (s\<lparr>sendStream := ss, receiveStream := rs\<rparr>, w2)"
    using a b by (simp add: stream_CloseForShutdown_def)
  assume f: "(\<forall>ss' w'. frames (snd (sendStream_CloseForShutdown S err ss' w')) = frames w')
             \<and> (\<forall>rs' w'. frames (snd (receiveStream_CloseForShutdown R err rs' w')) = frames w')"
  have "frames w1 = frames w"
    using f a by (metis snd_conv)
  moreover have "frames w2 = frames w1"
    using f b by (metis snd_conv)
  ultimately show "frames (snd (stream_CloseForShutdown S R err (s, w))) = frames w"
    using r by simp
qed

theorem stream_CloseForShutdown_both_halves_witness:
  "stream_CloseForShutdown probe_sendStream probe_receiveStream ''shutdown''
     (\<lparr>receiveStream =
          \<lparr>probe_receiveID = 4, probe_acceptsRst = True, probe_canceledRead = True,
           probe_receiveFinished = False\<rparr>,
       sendStream =
          \<lparr>probe_StreamID = 4, probe_writeOffset = 10, probe_closeResult = None,
           probe_sendFinished = False\<rparr>,
       version = 0\<rparr>,
      \<lparr>calls = [], queued = []\<rparr>)
   = (\<lparr>receiveStream =
          \<lparr>probe_receiveID = 4, probe_acceptsRst = True, probe_canceledRead = True,
           probe_receiveFinished = True\<rparr>,
       sendStream =
          \<lparr>probe_StreamID = 4, probe_writeOffset = 10, probe_closeResult = None,
           probe_sendFinished = True\<rparr>,
       version = 0\<rparr>,
      \<lparr>calls = [EvSendCloseForShutdown ''shutdown'', EvReceiveCloseForShutdown ''shutdown''],
       queued = []\<rparr>)
   \<and> queued (snd (stream_CloseForShutdown probe_sendStream probe_receiveStream ''shutdown''
     (\<lparr>receiveStream =
          \<lparr>probe_receiveID = 4, probe_acceptsRst = True, probe_canceledRead = True,
           probe_receiveFinished = False\<rparr>,
       sendStream =
          \<lparr>probe_StreamID = 4, probe_writeOffset = 10, probe_closeResult = None,
           probe_sendFinished = False\<rparr>,
       version = 0\<rparr>,
      \<lparr>calls = [], queued = []\<rparr>))) = []"
proof -
  let ?r = "\<lparr>probe_receiveID = 4, probe_acceptsRst = True, probe_canceledRead = True,
            probe_receiveFinished = False\<rparr>"
  let ?s = "\<lparr>probe_StreamID = 4, probe_writeOffset = 10, probe_closeResult = None,
            probe_sendFinished = False\<rparr>"
  let ?w1 = "\<lparr>calls = [EvSendCloseForShutdown ''shutdown''], queued = []\<rparr>"
  have send: "sendStream_CloseForShutdown probe_sendStream ''shutdown''
                (sendStream \<lparr>receiveStream = ?r, sendStream = ?s, version = 0\<rparr>)
                \<lparr>calls = [], queued = []\<rparr>
              = (?s\<lparr>probe_sendFinished := True\<rparr>, ?w1)"
    by (simp add: probe_sendStream_def called_def)
  have receive: "receiveStream_CloseForShutdown probe_receiveStream ''shutdown''
                   (receiveStream \<lparr>receiveStream = ?r, sendStream = ?s, version = 0\<rparr>) ?w1
                 = (?r\<lparr>probe_receiveFinished := True\<rparr>,
                    \<lparr>calls = [EvSendCloseForShutdown ''shutdown'',
                              EvReceiveCloseForShutdown ''shutdown''], queued = []\<rparr>)"
    by (simp add: probe_receiveStream_def called_def)
  have quiet:
    "(\<forall>ss' w'. queued (snd (sendStream_CloseForShutdown probe_sendStream ''shutdown'' ss' w'))
               = queued w')
     \<and> (\<forall>rs' w'. queued (snd (receiveStream_CloseForShutdown probe_receiveStream ''shutdown''
                                 rs' w')) = queued w')"
    by (simp add: probe_sendStream_def probe_receiveStream_def called_def)
  note t = stream_CloseForShutdown_both_halves [OF send receive, where frames = queued]
  show ?thesis
    using t [THEN conjunct1] t [THEN conjunct2, rule_format, OF quiet] by simp
qed

subsection \<open>Finished\<close>

text \<open>
  C5. Finished is the conjunction of the two halves' Finished and nothing else: the
  call changes neither the stream nor the shared state. If the finished predicate of
  each half is monotone, then from a stream whose Finished is true, Finished is true
  after every further sequence of calls.
\<close>

theorem stream_Finished_conjunction_stays:
  "stream_Finished S R s
     = (sendStream_Finished S (sendStream s) \<and> receiveStream_Finished R (receiveStream s))
   \<and> step U S R CallFinished (s, w) = (s, w)
   \<and> (sendStream_Finished_monotone S \<longrightarrow> receiveStream_Finished_monotone R \<longrightarrow>
      stream_Finished S R s \<longrightarrow> stream_Finished S R (fst (lifetime U S R cs (s, w))))"
proof (intro conjI impI)
  show "stream_Finished S R s
        = (sendStream_Finished S (sendStream s) \<and> receiveStream_Finished R (receiveStream s))"
    by (simp add: stream_Finished_def)
  show "step U S R CallFinished (s, w) = (s, w)"
    by simp
  assume S: "sendStream_Finished_monotone S" and R: "receiveStream_Finished_monotone R"
    and fin: "stream_Finished S R s"
  have "sendStream_Finished S (sendStream (fst (lifetime U S R cs (s, w))))"
    using S fin lifetime_keeps_sendStream [of S "sendStream_Finished S" s U R cs w]
    by (simp add: sendStream_Finished_monotone_def stream_Finished_def)
  moreover have "receiveStream_Finished R (receiveStream (fst (lifetime U S R cs (s, w))))"
    using R fin lifetime_keeps_receiveStream [of R "receiveStream_Finished R" s U S cs w]
    by (simp add: receiveStream_Finished_monotone_def stream_Finished_def)
  ultimately show "stream_Finished S R (fst (lifetime U S R cs (s, w)))"
    by (simp add: stream_Finished_def)
qed

theorem stream_Finished_conjunction_stays_witness:
  "stream_Finished probe_sendStream probe_receiveStream
     (fst (lifetime (\<lambda>v. v \<noteq> 1362113337) probe_sendStream probe_receiveStream
        [CallClose,
         CallHandleRstStreamFrame \<lparr>RstStreamFrame.StreamID = 4, ErrorCode = 3, ByteOffset = 10\<rparr>,
         CallSetDeadline 5, CallSend (), CallReceive (), CallFinished,
         CallCloseForShutdown ''shutdown'']
        (\<lparr>receiveStream =
             \<lparr>probe_receiveID = 4, probe_acceptsRst = True, probe_canceledRead = False,
              probe_receiveFinished = True\<rparr>,
          sendStream =
             \<lparr>probe_StreamID = 4, probe_writeOffset = 10, probe_closeResult = None,
              probe_sendFinished = True\<rparr>,
          version = 0\<rparr>,
         \<lparr>calls = [], queued = []\<rparr>)))"
proof -
  have S: "sendStream_Finished_monotone probe_sendStream"
    by (simp add: sendStream_Finished_monotone_def sendStream_keeps_def probe_sendStream_def)
  have R: "receiveStream_Finished_monotone probe_receiveStream"
    by (simp add: receiveStream_Finished_monotone_def receiveStream_keeps_def
        probe_receiveStream_def)
  have fin: "stream_Finished probe_sendStream probe_receiveStream
     \<lparr>receiveStream =
        \<lparr>probe_receiveID = 4, probe_acceptsRst = True, probe_canceledRead = False,
         probe_receiveFinished = True\<rparr>,
      sendStream =
        \<lparr>probe_StreamID = 4, probe_writeOffset = 10, probe_closeResult = None,
         probe_sendFinished = True\<rparr>,
      version = 0\<rparr>"
    by (simp add: stream_Finished_def probe_sendStream_def probe_receiveStream_def)
  show ?thesis
    by (rule stream_Finished_conjunction_stays
          [THEN conjunct2, THEN conjunct2, rule_format, OF S R fin])
qed

subsection \<open>StreamID\<close>

text \<open>
  C7. StreamID is answered by the send half and by nothing else, and newStream hands
  the same identifier to the constructors of both halves. With a send half whose
  identifier is immutable, StreamID of the stream that newStream returns for an
  identifier is this identifier, right after construction and after every sequence of
  calls.
\<close>

theorem stream_StreamID_newStream_constant:
  "stream_StreamID S s = sendStream_StreamID S (sendStream s)
   \<and> sendStream (newStream newSendStream newReceiveStream streamID onData queueControlFrame
        flowController version')
     = newSendStream streamID onData queueControlFrame flowController version'
   \<and> receiveStream (newStream newSendStream newReceiveStream streamID onData queueControlFrame
        flowController version')
     = newReceiveStream streamID onData queueControlFrame flowController
   \<and> (sendStream_StreamID_immutable newSendStream S \<longrightarrow>
      stream_StreamID S (newStream newSendStream newReceiveStream streamID onData
        queueControlFrame flowController version') = streamID
      \<and> stream_StreamID S (fst (lifetime U S R cs
          (newStream newSendStream newReceiveStream streamID onData queueControlFrame
             flowController version', w))) = streamID)"
proof (intro conjI impI)
  let ?new = "newStream newSendStream newReceiveStream streamID onData queueControlFrame
                flowController version'"
  show "stream_StreamID S s = sendStream_StreamID S (sendStream s)"
    by (simp add: stream_StreamID_def)
  show "sendStream ?new = newSendStream streamID onData queueControlFrame flowController version'"
    by (simp add: newStream_def)
  show "receiveStream ?new = newReceiveStream streamID onData queueControlFrame flowController"
    by (simp add: newStream_def)
  assume im: "sendStream_StreamID_immutable newSendStream S"
  show new: "stream_StreamID S ?new = streamID"
    using im by (simp add: sendStream_StreamID_immutable_def stream_StreamID_def newStream_def)
  have "sendStream_keeps S (\<lambda>s. sendStream_StreamID S s = streamID)"
    using im by (simp add: sendStream_StreamID_immutable_def)
  then have "sendStream_StreamID S (sendStream (fst (lifetime U S R cs (?new, w)))) = streamID"
    using new lifetime_keeps_sendStream
            [of S "\<lambda>s. sendStream_StreamID S s = streamID" ?new U R cs w]
    by (simp add: stream_StreamID_def)
  then show "stream_StreamID S (fst (lifetime U S R cs (?new, w))) = streamID"
    by (simp add: stream_StreamID_def)
qed

theorem stream_StreamID_newStream_constant_witness:
  "stream_StreamID probe_sendStream
     (newStream probe_newSendStream probe_newReceiveStream 4 () () () 1362113337) = 4
   \<and> stream_StreamID probe_sendStream
       (fst (lifetime (\<lambda>v. v \<noteq> 1362113337) probe_sendStream probe_receiveStream
          [CallSend (), CallClose,
           CallHandleRstStreamFrame
             \<lparr>RstStreamFrame.StreamID = 4, ErrorCode = 3, ByteOffset = 10\<rparr>,
           CallHandleStopSendingFrame \<lparr>StopSendingFrame.StreamID = 4, ErrorCode = 3\<rparr>,
           CallCloseForShutdown ''shutdown'']
          (newStream probe_newSendStream probe_newReceiveStream 4 () () () 1362113337,
           \<lparr>calls = [], queued = []\<rparr>))) = 4"
proof -
  have im: "sendStream_StreamID_immutable probe_newSendStream probe_sendStream"
    by (simp add: sendStream_StreamID_immutable_def sendStream_keeps_def probe_sendStream_def
        probe_newSendStream_def)
  show ?thesis
    by (rule stream_StreamID_newStream_constant
          [THEN conjunct2, THEN conjunct2, THEN conjunct2, rule_format, OF im])
qed

text \<open>
  If the receive half accepts the RESET, the stream's version field decides: for a
  version that does not use the IETF frame format the send half gets a stop-sending
  frame with the stream's identifier and the RESET's error code, for one that does it
  gets nothing.
\<close>

lemma stream_HandleRstStreamFrame_accepted:
  "receiveStream_HandleRstStreamFrame R frame (receiveStream s) w = (None, rs, w1) \<Longrightarrow>
   stream_HandleRstStreamFrame UsesIETFFrameFormat S R frame (s, w)
   = (if UsesIETFFrameFormat (version s)
      then (None, s\<lparr>receiveStream := rs\<rparr>, w1)
      else (None,
            s\<lparr>receiveStream := rs,
              sendStream := fst (sendStream_HandleStopSendingFrame S
                \<lparr>StopSendingFrame.StreamID = sendStream_StreamID S (sendStream s),
                 ErrorCode = RstStreamFrame.ErrorCode frame\<rparr> (sendStream s) w1)\<rparr>,
            snd (sendStream_HandleStopSendingFrame S
                \<lparr>StopSendingFrame.StreamID = sendStream_StreamID S (sendStream s),
                 ErrorCode = RstStreamFrame.ErrorCode frame\<rparr> (sendStream s) w1)))"
  by (simp add: stream_HandleRstStreamFrame_def stream_StreamID_def Let_def split: prod.split)

subsection \<open>The version that newStream is given\<close>

text \<open>
  C10. newStream leaves the stream's own version field at the zero VersionNumber,
  whatever version it is given; the version goes to the constructor of the send half
  and nowhere else. So for a stream as newStream returns it, when the receive half
  accepts a RESET, whether a stop-sending frame goes to the send half is decided by
  what UsesIETFFrameFormat says of the zero version, and the version given to newStream
  has no part in it.
\<close>

theorem newStream_version_zero:
  "version (newStream newSendStream newReceiveStream streamID onData queueControlFrame
      flowController version') = 0
   \<and> newStream newSendStream newReceiveStream streamID onData queueControlFrame
        flowController version'
     = \<lparr>receiveStream = newReceiveStream streamID onData queueControlFrame flowController,
        sendStream = newSendStream streamID onData queueControlFrame flowController version',
        version = 0\<rparr>
   \<and> (receiveStream_HandleRstStreamFrame R frame
        (newReceiveStream streamID onData queueControlFrame flowController) w = (None, rs, w1)
      \<longrightarrow>
      stream_HandleRstStreamFrame UsesIETFFrameFormat S R frame
        (newStream newSendStream newReceiveStream streamID onData queueControlFrame
           flowController version', w)
      = (if \<not> UsesIETFFrameFormat 0
         then (None,
               \<lparr>receiveStream = rs,
                sendStream = fst (sendStream_HandleStopSendingFrame S
                  \<lparr>StopSendingFrame.StreamID = sendStream_StreamID S
                     (newSendStream streamID onData queueControlFrame flowController version'),
                   ErrorCode = RstStreamFrame.ErrorCode frame\<rparr>
                  (newSendStream streamID onData queueControlFrame flowController version') w1),
                version = 0\<rparr>,
               snd (sendStream_HandleStopSendingFrame S
                  \<lparr>StopSendingFrame.StreamID = sendStream_StreamID S
                     (newSendStream streamID onData queueControlFrame flowController version'),
                   ErrorCode = RstStreamFrame.ErrorCode frame\<rparr>
                  (newSendStream streamID onData queueControlFrame flowController version') w1))
         else (None,
               \<lparr>receiveStream = rs,
                sendStream = newSendStream streamID onData queueControlFrame flowController
                  version',
                version = 0\<rparr>,
               w1)))"
  by (simp add: newStream_def stream_HandleRstStreamFrame_def stream_StreamID_def Let_def
      split: prod.split)

theorem newStream_version_zero_witness:
  "stream_HandleRstStreamFrame (\<lambda>v. v \<noteq> 1362113337) probe_sendStream probe_receiveStream
     \<lparr>RstStreamFrame.StreamID = 8, ErrorCode = 5, ByteOffset = 0\<rparr>
     (newStream probe_newSendStream probe_newReceiveStream 8 () () () 1362113337,
      \<lparr>calls = [], queued = []\<rparr>)
   = (None,
      \<lparr>receiveStream =
          \<lparr>probe_receiveID = 8, probe_acceptsRst = True, probe_canceledRead = False,
           probe_receiveFinished = True\<rparr>,
       sendStream =
          \<lparr>probe_StreamID = 8, probe_writeOffset = 0, probe_closeResult = None,
           probe_sendFinished = False\<rparr>,
       version = 0\<rparr>,
      \<lparr>calls = [EvReceiveHandleRstStreamFrame
                  \<lparr>RstStreamFrame.StreamID = 8, ErrorCode = 5, ByteOffset = 0\<rparr>],
       queued = []\<rparr>)
   \<and> stream_HandleRstStreamFrame (\<lambda>v. v = 101) probe_sendStream probe_receiveStream
     \<lparr>RstStreamFrame.StreamID = 8, ErrorCode = 5, ByteOffset = 0\<rparr>
     (newStream probe_newSendStream probe_newReceiveStream 8 () () () 101,
      \<lparr>calls = [], queued = []\<rparr>)
   = (None,
      \<lparr>receiveStream =
          \<lparr>probe_receiveID = 8, probe_acceptsRst = True, probe_canceledRead = False,
           probe_receiveFinished = True\<rparr>,
       sendStream =
          \<lparr>probe_StreamID = 8, probe_writeOffset = 0, probe_closeResult = None,
           probe_sendFinished = True\<rparr>,
       version = 0\<rparr>,
      \<lparr>calls = [EvReceiveHandleRstStreamFrame
                  \<lparr>RstStreamFrame.StreamID = 8, ErrorCode = 5, ByteOffset = 0\<rparr>,
                EvSendHandleStopSendingFrame \<lparr>StopSendingFrame.StreamID = 8, ErrorCode = 5\<rparr>],
       queued = []\<rparr>)"
proof -
  let ?frame = "\<lparr>RstStreamFrame.StreamID = 8, ErrorCode = 5, ByteOffset = 0\<rparr>"
  have accepted:
    "receiveStream_HandleRstStreamFrame probe_receiveStream ?frame
       (probe_newReceiveStream 8 () () ()) \<lparr>calls = [], queued = []\<rparr>
     = (None,
        \<lparr>probe_receiveID = 8, probe_acceptsRst = True, probe_canceledRead = False,
         probe_receiveFinished = True\<rparr>,
        \<lparr>calls = [EvReceiveHandleRstStreamFrame ?frame], queued = []\<rparr>)"
    by (simp add: probe_receiveStream_def probe_newReceiveStream_def called_def)
  note t = newStream_version_zero
    [where newSendStream = probe_newSendStream and newReceiveStream = probe_newReceiveStream
       and S = probe_sendStream and R = probe_receiveStream and frame = ?frame
       and streamID = 8 and onData = "()" and queueControlFrame = "()"
       and flowController = "()" and w = "\<lparr>calls = [], queued = []\<rparr>",
     THEN conjunct2, THEN conjunct2, rule_format, OF accepted]
  show ?thesis
    using t [where UsesIETFFrameFormat = "\<lambda>v. v \<noteq> 1362113337" and version' = 1362113337]
          t [where UsesIETFFrameFormat = "\<lambda>v. v = 101" and version' = 101]
    by (simp add: probe_sendStream_def probe_newSendStream_def called_def)
qed

text \<open>
  C1. The claim is that a stream built for a legacy version sends a stop-sending frame
  with the RESET's error code to its send half when the receive half accepts a RESET,
  and that a stream built for an IETF version sends none. The code does not do that for
  the version passed at construction: the branch reads the stream's version field,
  which newStream leaves at zero. Whenever UsesIETFFrameFormat answers differently for
  the version given to newStream and for the zero version, the stream takes the branch
  of the other format: given an IETF version it hands the send half a stop-sending
  frame, given a legacy version it hands it none.
\<close>

theorem stream_HandleRstStreamFrame_newStream_other_format:
  "UsesIETFFrameFormat version' \<noteq> UsesIETFFrameFormat 0 \<Longrightarrow>
   receiveStream_HandleRstStreamFrame R frame
     (newReceiveStream streamID onData queueControlFrame flowController) w = (None, rs, w1) \<Longrightarrow>
   sendStream_HandleStopSendingFrame S
     \<lparr>StopSendingFrame.StreamID = stream_StreamID S
        (newStream newSendStream newReceiveStream streamID onData queueControlFrame
           flowController version'),
      ErrorCode = RstStreamFrame.ErrorCode frame\<rparr>
     (newSendStream streamID onData queueControlFrame flowController version') w1 = (ss, w2) \<Longrightarrow>
   stream_HandleRstStreamFrame UsesIETFFrameFormat S R frame
     (newStream newSendStream newReceiveStream streamID onData queueControlFrame
        flowController version', w)
   = (if UsesIETFFrameFormat version'
      then (None, \<lparr>receiveStream = rs, sendStream = ss, version = 0\<rparr>, w2)
      else (None,
            \<lparr>receiveStream = rs,
             sendStream = newSendStream streamID onData queueControlFrame flowController
               version',
             version = 0\<rparr>,
            w1))"
  by (auto simp add: newStream_def stream_HandleRstStreamFrame_def stream_StreamID_def Let_def)

theorem stream_HandleRstStreamFrame_newStream_other_format_witness:
  "stream_HandleRstStreamFrame (\<lambda>v. v \<noteq> 1362113337) probe_sendStream probe_receiveStream
     \<lparr>RstStreamFrame.StreamID = 4, ErrorCode = 3, ByteOffset = 10\<rparr>
     (newStream probe_newSendStream probe_newReceiveStream 4 () () () 1362113337,
      \<lparr>calls = [], queued = []\<rparr>)
   = (None,
      \<lparr>receiveStream =
          \<lparr>probe_receiveID = 4, probe_acceptsRst = True, probe_canceledRead = False,
           probe_receiveFinished = True\<rparr>,
       sendStream = probe_newSendStream 4 () () () 1362113337,
       version = 0\<rparr>,
      \<lparr>calls = [EvReceiveHandleRstStreamFrame
                  \<lparr>RstStreamFrame.StreamID = 4, ErrorCode = 3, ByteOffset = 10\<rparr>],
       queued = []\<rparr>)"
proof -
  let ?frame = "\<lparr>RstStreamFrame.StreamID = 4, ErrorCode = 3, ByteOffset = 10\<rparr>"
  let ?new = "newStream probe_newSendStream probe_newReceiveStream 4 () () () 1362113337"
  let ?w1 = "\<lparr>calls = [EvReceiveHandleRstStreamFrame ?frame], queued = []\<rparr>"
  have differ: "(\<lambda>v::VersionNumber. v \<noteq> 1362113337) 1362113337
                \<noteq> (\<lambda>v::VersionNumber. v \<noteq> 1362113337) 0"
    by simp
  have accepted:
    "receiveStream_HandleRstStreamFrame probe_receiveStream ?frame
       (probe_newReceiveStream 4 () () ()) \<lparr>calls = [], queued = []\<rparr>
     = (None,
        \<lparr>probe_receiveID = 4, probe_acceptsRst = True, probe_canceledRead = False,
         probe_receiveFinished = True\<rparr>,
        ?w1)"
    by (simp add: probe_receiveStream_def probe_newReceiveStream_def called_def)
  have stop:
    "sendStream_HandleStopSendingFrame probe_sendStream
       \<lparr>StopSendingFrame.StreamID = stream_StreamID probe_sendStream ?new,
        ErrorCode = RstStreamFrame.ErrorCode ?frame\<rparr>
       (probe_newSendStream 4 () () () 1362113337) ?w1
     = ((probe_newSendStream 4 () () () 1362113337)\<lparr>probe_sendFinished := True\<rparr>,
        called (EvSendHandleStopSendingFrame
                  \<lparr>StopSendingFrame.StreamID = stream_StreamID probe_sendStream ?new,
                   ErrorCode = RstStreamFrame.ErrorCode ?frame\<rparr>) ?w1)"
    by (simp add: probe_sendStream_def)
  show ?thesis
    using stream_HandleRstStreamFrame_newStream_other_format
      [where UsesIETFFrameFormat = "\<lambda>v. v \<noteq> 1362113337" and version' = 1362113337
         and newSendStream = probe_newSendStream and newReceiveStream = probe_newReceiveStream
         and S = probe_sendStream and R = probe_receiveStream and frame = ?frame
         and streamID = 4 and onData = "()" and queueControlFrame = "()"
         and flowController = "()" and w = "\<lparr>calls = [], queued = []\<rparr>",
       OF differ accepted stop]
    by simp
qed

subsection \<open>The error types\<close>

text \<open>
  C8. Every value of deadlineError answers true to Temporary() and to Timeout(). Both are
  functions of the value alone, so every invocation gives the same answer; errDeadline
  is such a value.
\<close>

theorem deadlineError_Temporary_Timeout:
  "deadlineError_Temporary e = True \<and> deadlineError_Timeout e = True
   \<and> deadlineError_Temporary errDeadline = True \<and> deadlineError_Timeout errDeadline = True"
  by (simp add: deadlineError_Temporary_def deadlineError_Timeout_def)

text \<open>
  C9. A streamCanceledError built around a descriptive error \<open>err\<close> with the application
  error code \<open>c\<close> answers true to Canceled(), and ErrorCode() gives back \<open>c\<close>; the wrapped
  error is kept as well.
\<close>

theorem streamCanceledError_Canceled_ErrorCode:
  "streamCanceledError_Canceled \<lparr>error = err, errorCode = c\<rparr> = True
   \<and> streamCanceledError_ErrorCode \<lparr>error = err, errorCode = c\<rparr> = c
   \<and> error \<lparr>error = err, errorCode = c\<rparr> = err"
  by (simp add: streamCanceledError_Canceled_def streamCanceledError_ErrorCode_def)

end
